theory Spec2Isabelle
  imports Complex_Main
begin

section \<open>JavaScript values and strings\<close>

text \<open>
  A JavaScript string is a sequence of UTF-16 code units. A code unit is modelled as a
  natural number (below 65536 in every string the program can hold), so that the
  characters the source uses outside ASCII (the en dash of three reason texts, the
  flag glyphs of the country list, the Unicode white space that \<open>parseInt\<close> skips)
  are all values of the model. \<open>js\<close> reads an ASCII literal as such a sequence.
\<close>

type_synonym jsstring = "nat list"

definition js :: "string \<Rightarrow> jsstring" where
  "js s = map of_char s"

text \<open>
  The fields of a decoded profile are JSON values. The model covers the primitive ones
  and the absent field (\<open>undefined\<close>). \<open>JNum n\<close> is an integral number \<open>n\<close> with
  \<open>\<bar>n\<bar> < 10^21\<close>, whose string conversion is its plain decimal numeral; fractional
  numbers, and arrays and objects as field values, are outside the model.
\<close>

datatype jsval = JUndefined | JNull | JBool bool | JNum int | JStr jsstring

text \<open>ToBoolean, the test behind \<open>a || b\<close>.\<close>

fun truthy :: "jsval \<Rightarrow> bool" where
  "truthy JUndefined = False"
| "truthy JNull = False"
| "truthy (JBool b) = b"
| "truthy (JNum n) = (n \<noteq> 0)"
| "truthy (JStr s) = (s \<noteq> [])"

definition js_or :: "jsval \<Rightarrow> jsval \<Rightarrow> jsval" where
  "js_or a b = (if truthy a then a else b)"

text \<open>The decimal numeral of a natural number, most significant digit first.\<close>

fun decimal :: "nat \<Rightarrow> jsstring" where
  "decimal n = (if n < 10 then [48 + n] else decimal (n div 10) @ [48 + n mod 10])"

declare decimal.simps [simp del]

text \<open>ToString on the values of the model.\<close>

fun toString :: "jsval \<Rightarrow> jsstring" where
  "toString JUndefined = js ''undefined''"
| "toString JNull = js ''null''"
| "toString (JBool b) = (if b then js ''true'' else js ''false'')"
| "toString (JNum n) = (if n < 0 then 45 # decimal (nat (- n)) else decimal (nat n))"
| "toString (JStr s) = s"

text \<open>
  \<open>String.prototype.toLowerCase\<close>, code unit by code unit. The mapping is the Unicode
  one on the code units below 256 (\<open>A\<close> to \<open>Z\<close>, and the Latin-1 capitals \<open>0xC0\<close> to
  \<open>0xDE\<close> without the multiplication sign \<open>0xD7\<close>); code units from 256 on are left
  as they are. No character from 256 on lower-cases to a letter of an allowed
  extension, so the comparison with the allowed extensions is the program's on every
  name.
\<close>

definition lowerUnit :: "nat \<Rightarrow> nat" where
  "lowerUnit c = (if (65 \<le> c \<and> c \<le> 90) \<or> (192 \<le> c \<and> c \<le> 222 \<and> c \<noteq> 215) then c + 32 else c)"

definition toLowerCase :: "jsstring \<Rightarrow> jsstring" where
  "toLowerCase s = map lowerUnit s"

section \<open>The extension of a file name\<close>

text \<open>
  \<open>path.extname\<close> of Node's standard library (the POSIX variant), which the validator
  calls on the uploaded file's name. It scans the name from its last code unit to its
  first, with five variables; \<open>endIdx\<close> is the library's \<open>end\<close>. Code unit 47 is the
  slash and 46 the dot.
\<close>

record extname_state =
  startDot :: int
  startPart :: int
  endIdx :: int
  matchedSlash :: bool
  preDotState :: int

text \<open>
  \<open>extname_loop path n st\<close> runs the iterations \<open>i = n - 1, \<dots>, 0\<close> of the loop from
  the state \<open>st\<close>; the \<open>break\<close> returns at once.
\<close>

fun extname_loop :: "jsstring \<Rightarrow> nat \<Rightarrow> extname_state \<Rightarrow> extname_state" where
  "extname_loop path 0 st = st"
| "extname_loop path (Suc i) st =
     (let code = path ! i in
      if code = 47 then
        (if \<not> matchedSlash st then st\<lparr>startPart := int i + 1\<rparr>
         else extname_loop path i st)
      else
        (let st1 = (if endIdx st = -1 then st\<lparr>endIdx := int i + 1, matchedSlash := False\<rparr> else st);
             st2 = (if code = 46 then
                      (if startDot st1 = -1 then st1\<lparr>startDot := int i\<rparr>
                       else if preDotState st1 \<noteq> 1 then st1\<lparr>preDotState := 1\<rparr>
                       else st1)
                    else if startDot st1 \<noteq> -1 then st1\<lparr>preDotState := -1\<rparr>
                    else st1)
         in extname_loop path i st2))"

text \<open>\<open>path.slice(a, b)\<close> for \<open>0 \<le> a \<le> b \<le> length path\<close>, the only use made of it.\<close>

definition slice :: "jsstring \<Rightarrow> int \<Rightarrow> int \<Rightarrow> jsstring" where
  "slice s a b = take (nat (b - a)) (drop (nat a) s)"

definition extname :: "jsstring \<Rightarrow> jsstring" where
  "extname path =
     (let st = extname_loop path (length path)
                 \<lparr>startDot = -1, startPart = 0, endIdx = -1, matchedSlash = True, preDotState = 0\<rparr>
      in if startDot st = -1 \<or> endIdx st = -1 \<or> preDotState st = 0 \<or>
            (preDotState st = 1 \<and> startDot st = endIdx st - 1 \<and> startDot st = startPart st + 1)
         then []
         else slice path (startDot st) (endIdx st))"

section \<open>DocumentValidator: \<open>analyzeDocument\<close>\<close>

text \<open>
  An uploaded file as the upload middleware hands it over: its original name and its
  size in bytes (\<open>file.size\<close>). The verdict carries \<open>ok\<close>, \<open>note\<close> and \<open>scoreImpact\<close>.
\<close>

record multer_file =
  originalname :: jsstring
  size_bytes :: nat

record doc_result =
  ok :: bool
  "note" :: jsstring
  scoreImpact :: int

definition allowedExt :: "jsstring list" where
  "allowedExt = [js ''.pdf'', js ''.jpg'', js ''.jpeg'', js ''.png'']"

text \<open>
  \<open>file.size / 1024\<close> is a division of floating-point numbers; a division of an
  integer below \<open>2^53\<close> by a power of two is exact, so the quotient is the rational one.
\<close>

definition analyzeDocument :: "multer_file \<Rightarrow> jsstring \<Rightarrow> doc_result" where
  "analyzeDocument file type =
     (let ext = toLowerCase (extname (originalname file));
          sizeKB = (of_nat (size_bytes file) :: rat) / 1024
      in if ext \<notin> set allowedExt then
           \<lparr>ok = False,
            note = js ''Unsupported file type ('' @ ext @ js ''). Please upload PDF or image.'',
            scoreImpact = -20\<rparr>
         else if sizeKB < 30 then
           \<lparr>ok = False,
            note = js ''File looks too small, may be corrupted or incomplete.'',
            scoreImpact = -15\<rparr>
         else if type = js ''passport'' then
           \<lparr>ok = True,
            note = js ''Passport file looks valid (size & type OK).'',
            scoreImpact = 15\<rparr>
         else if type = js ''bank'' then
           \<lparr>ok = True,
            note = js ''Bank statement file looks valid. For demo we assume balance & history OK.'',
            scoreImpact = 20\<rparr>
         else if type = js ''offer'' then
           \<lparr>ok = True,
            note = js ''Offer letter file looks valid. In production we would verify institution & dates.'',
            scoreImpact = 15\<rparr>
         else
           \<lparr>ok = True,
            note = js ''Document uploaded successfully.'',
            scoreImpact = 5\<rparr>)"

section \<open>Numbers read from strings: \<open>parseInt\<close>\<close>

text \<open>
  \<open>parseInt(string, 10)\<close> of the language standard: white space is skipped, then an
  optional sign, then the longest run of decimal digits; with no digit the result is
  \<open>NaN\<close>. The digits denote a mathematical integer \<open>n\<close>; the program holds its
  nearest floating-point number (an infinity for a very long run), and compares it
  only with 150000 and 50000. Rounding is monotone and keeps every integer of that
  size, so each comparison has the outcome it has on \<open>n\<close> itself, and the model
  keeps \<open>n\<close>.
\<close>

datatype jsnumber = NaN | Num int

definition isWhiteSpace :: "nat \<Rightarrow> bool" where
  "isWhiteSpace c =
     (c \<in> {9, 10, 11, 12, 13, 32, 160, 5760, 8232, 8233, 8239, 8287, 12288, 65279}
      \<or> (8192 \<le> c \<and> c \<le> 8202))"

definition isDigit :: "nat \<Rightarrow> bool" where
  "isDigit c = (48 \<le> c \<and> c \<le> 57)"

definition digitsValue :: "jsstring \<Rightarrow> nat" where
  "digitsValue z = foldl (\<lambda>a c. 10 * a + (c - 48)) 0 z"

definition parseInt :: "jsstring \<Rightarrow> jsnumber" where
  "parseInt inputString =
     (let s = dropWhile isWhiteSpace inputString;
          sign = (if s \<noteq> [] \<and> hd s = 45 then - 1 else 1 :: int);
          s = (if s \<noteq> [] \<and> (hd s = 43 \<or> hd s = 45) then tl s else s);
          z = takeWhile isDigit s
      in if z = [] then NaN else Num (sign * int (digitsValue z)))"

text \<open>The comparisons \<open>x > k\<close> and \<open>x < k\<close>: both are false on \<open>NaN\<close>.\<close>

fun gt :: "jsnumber \<Rightarrow> int \<Rightarrow> bool" where
  "gt NaN k = False"
| "gt (Num n) k = (n > k)"

fun lt :: "jsnumber \<Rightarrow> int \<Rightarrow> bool" where
  "lt NaN k = False"
| "lt (Num n) k = (n < k)"

section \<open>The list of assessed documents\<close>

text \<open>
  The entries of the list \<open>docs\<close>: a display name with the verdict's three fields.
  What the response exposes of an entry is \<open>doc_public\<close>; the entry extends it by
  \<open>scoreImpact\<close>.
\<close>

record doc_public =
  name :: jsstring
  ok :: bool
  "note" :: jsstring

record doc_entry = doc_public +
  scoreImpact :: int

section \<open>RiskEvaluator: \<open>fundsRisk\<close> and \<open>docsRisk\<close>\<close>

definition fundsRisk :: "int \<Rightarrow> int" where
  "fundsRisk score = (if score \<ge> 80 then 20 else if score \<ge> 60 then 35 else 60)"

definition docsRisk :: "doc_entry list \<Rightarrow> int" where
  "docsRisk docs =
     (let bad = length (filter (\<lambda>d. \<not> ok d) docs)
      in if bad = 0 then 25 else if bad = 1 then 50 else 70)"

section \<open>ScoreAggregator: \<open>computeScore\<close>\<close>

text \<open>
  The decoded profile is an object: a map from property names to values. Reading a
  property the object does not have gives \<open>undefined\<close>.
\<close>

type_synonym profile = "string \<Rightarrow> jsval option"

definition field :: "profile \<Rightarrow> string \<Rightarrow> jsval" where
  "field obj k = (case obj k of None \<Rightarrow> JUndefined | Some v \<Rightarrow> v)"

record score_info =
  score :: int
  plain :: jsstring
  reasons :: "jsstring list"

text \<open>Code unit 8211 is the en dash of the reason texts.\<close>

definition computeScore :: "profile \<Rightarrow> doc_entry list \<Rightarrow> score_info" where
  "computeScore profile docResults =
     (let base = 50;
          base = foldl (\<lambda>b d. b + scoreImpact d) base docResults;
          funds = parseInt (toString (js_or (field profile ''funds'') (JStr (js ''0''))));
          base = (if gt funds 150000 then base + 10
                  else if lt funds 50000 then base - 10
                  else base);
          base = (if field profile ''education'' = JStr (js ''Masters'')
                     \<or> field profile ''education'' = JStr (js ''PhD'')
                  then base + 5 else base);
          base = (if field profile ''past_visa'' = JStr (js ''3+'') then base + 5 else base);
          base = (if field profile ''past_visa'' = JStr (js ''None'') then base - 5 else base);
          base = max 0 (min 100 base);
          plain = (if base \<ge> 75 then js ''Highly likely''
                   else if base \<ge> 60 then js ''Likely''
                   else if base \<ge> 45 then js ''Borderline''
                   else js ''Unlikely'');
          reasons = [];
          reasons = reasons @
            (if gt funds 150000 then [js ''Strong financial capacity'']
             else if lt funds 50000 then [js ''Low declared funds '' @ [8211] @ js '' risk on finances'']
             else [js ''Funds appear moderate for stay'']);
          reasons = reasons @
            (if field profile ''education'' = JStr (js ''Masters'')
                \<or> field profile ''education'' = JStr (js ''PhD'')
             then [js ''Advanced education supports purpose''] else []);
          reasons = reasons @
            (if field profile ''past_visa'' = JStr (js ''3+'')
             then [js ''Good travel history '' @ [8211] @ js '' positive signal''] else []);
          reasons = reasons @
            (if field profile ''past_visa'' = JStr (js ''None'')
             then [js ''No prior visa history '' @ [8211] @ js '' neutral or slightly risky'']
             else []);
          reasons = reasons @
            (if list_ex (\<lambda>d. \<not> ok d) docResults
             then [js ''One or more documents look weak or invalid''] else [])
      in \<lparr>score = base, plain = plain, reasons = reasons\<rparr>)"

section \<open>The route \<open>/api/analyze\<close>\<close>

text \<open>
  The request as the handler sees it. The upload middleware gives at most one file for
  each of the three fields (\<open>req.files.passport?.[0]\<close>, and so on); an absent one
  is \<open>None\<close>. The profile text, \<open>'{}'\<close> when the request has none, goes through
  \<open>JSON.parse\<close>: that raises (\<open>Malformed\<close>), or gives \<open>null\<close>, or gives a value whose
  properties can be read. A decoded number, string, truth value or array has none of
  the properties the handler reads and behaves as the empty object.
\<close>

record uploads =
  passport :: "multer_file option"
  bank :: "multer_file option"
  offer :: "multer_file option"

datatype payload = Malformed | JsonNull | JsonObject profile

text \<open>A failed request: the status and the \<open>error\<close> text of the response.\<close>

datatype failure = Failure (status: nat) (error: jsstring)

record twin_summary =
  name :: jsval
  confidence :: int
  traits :: "jsstring list"

record country =
  name :: jsstring
  score :: int
  flag :: jsstring
  reason :: jsstring

record risk_item =
  label :: jsstring
  "value" :: int

record analysis_result =
  score :: int
  plain :: jsstring
  reasons :: "jsstring list"
  docs :: "doc_public list"
  twin :: twin_summary
  countries :: "country list"
  risk :: "risk_item list"

text \<open>
  The handler. Every exception raised in its body is caught and answered with status
  500: the one of \<open>JSON.parse\<close> on the first line, and the one of \<open>computeScore\<close>
  reading a property of \<open>null\<close>. \<open>docs.map(({ scoreImpact, ...rest }) => rest)\<close> keeps
  of every entry all fields but \<open>scoreImpact\<close>, which is the truncation of the
  extended record to \<open>doc_public\<close>.
\<close>

definition api_analyze :: "payload \<Rightarrow> uploads \<Rightarrow> failure + analysis_result" where
  "api_analyze body files =
     (case body of
        Malformed \<Rightarrow> Inl (Failure 500 (js ''Internal error analyzing profile''))
      | _ \<Rightarrow>
       (let passport = passport files;
            bank = bank files;
            offer = offer files
        in if passport = None \<or> bank = None \<or> offer = None then
             Inl (Failure 400
               (js ''Missing required documents. Please upload passport, bank statement, and offer letter.''))
           else
            (let docs = [];
                 passportRes = analyzeDocument (the passport) (js ''passport'');
                 docs = docs @ [\<lparr>doc_public.name = js ''Passport'', ok = doc_result.ok passportRes,
                                 note = doc_result.note passportRes,
                                 scoreImpact = doc_result.scoreImpact passportRes\<rparr>];
                 bankRes = analyzeDocument (the bank) (js ''bank'');
                 docs = docs @ [\<lparr>doc_public.name = js ''Bank statement'', ok = doc_result.ok bankRes,
                                 note = doc_result.note bankRes,
                                 scoreImpact = doc_result.scoreImpact bankRes\<rparr>];
                 offerRes = analyzeDocument (the offer) (js ''offer'');
                 docs = docs @ [\<lparr>doc_public.name = js ''Offer letter'', ok = doc_result.ok offerRes,
                                 note = doc_result.note offerRes,
                                 scoreImpact = doc_result.scoreImpact offerRes\<rparr>]
             in case body of
                  JsonObject profile \<Rightarrow>
                   (let scoreInfo = computeScore profile docs;
                        twin = \<lparr>twin_summary.name = js_or (field profile ''name'') (JStr (js ''Applicant'')),
                                confidence = 80,
                                traits =
                                  [if field profile ''past_visa'' = JStr (js ''None'')
                                   then js ''Low travel history'' else js ''Experienced traveller'',
                                   if score_info.score scoreInfo \<ge> 70
                                   then js ''Low risk profile'' else js ''Medium risk profile'']\<rparr>;
                        base = score_info.score scoreInfo;
                        countries =
                          [\<lparr>country.name = js ''Canada'', score = min 100 (base + 3),
                            flag = [55356, 56808, 55356, 56806],
                            reason = js ''Study funds okay; program alignment good.''\<rparr>,
                           \<lparr>country.name = js ''UK'', score = max 0 (base - 8),
                            flag = [55356, 56812, 55356, 56807],
                            reason = js ''Needs stronger financial and document history.''\<rparr>,
                           \<lparr>country.name = js ''Australia'', score = min 100 (base + 5),
                            flag = [55356, 56806, 55356, 56826],
                            reason = js ''Profile matches skill/education demand.''\<rparr>];
                        risk =
                          [\<lparr>label = js ''Finances'', value = fundsRisk (score_info.score scoreInfo)\<rparr>,
                           \<lparr>label = js ''Docs'', value = docsRisk docs\<rparr>,
                           \<lparr>label = js ''Travel History'',
                            value = (if field profile ''past_visa'' = JStr (js ''None'') then 60 else 25)\<rparr>,
                           \<lparr>label = js ''Purpose'',
                            value = (if field profile ''purpose'' = JStr (js ''Study'')
                                        \<or> field profile ''purpose'' = JStr (js ''Work'')
                                     then 20 else 40)\<rparr>]
                    in Inr \<lparr>analysis_result.score = score_info.score scoreInfo,
                            plain = score_info.plain scoreInfo,
                            reasons = score_info.reasons scoreInfo,
                            docs = map doc_public.truncate docs,
                            twin = twin,
                            countries = countries,
                            risk = risk\<rparr>)
                | _ \<Rightarrow> Inl (Failure 500 (js ''Internal error analyzing profile'')))))"

text \<open>
  The list \<open>docs\<close> as the handler has built it after its three calls of the validator,
  on the files of the three fields. The handler's definition above builds it in place;
  the name serves the statements below.
\<close>

definition assessed :: "multer_file \<Rightarrow> multer_file \<Rightarrow> multer_file \<Rightarrow> doc_entry list" where
  "assessed fp fb fo =
     [\<lparr>doc_public.name = js ''Passport'',
       ok = doc_result.ok (analyzeDocument fp (js ''passport'')),
       note = doc_result.note (analyzeDocument fp (js ''passport'')),
       scoreImpact = doc_result.scoreImpact (analyzeDocument fp (js ''passport''))\<rparr>,
      \<lparr>doc_public.name = js ''Bank statement'',
       ok = doc_result.ok (analyzeDocument fb (js ''bank'')),
       note = doc_result.note (analyzeDocument fb (js ''bank'')),
       scoreImpact = doc_result.scoreImpact (analyzeDocument fb (js ''bank''))\<rparr>,
      \<lparr>doc_public.name = js ''Offer letter'',
       ok = doc_result.ok (analyzeDocument fo (js ''offer'')),
       note = doc_result.note (analyzeDocument fo (js ''offer'')),
       scoreImpact = doc_result.scoreImpact (analyzeDocument fo (js ''offer''))\<rparr>]"

section \<open>Properties of the document validator\<close>

lemma js_eq_iff [simp]: "js a = js b \<longleftrightarrow> a = b"
  unfolding js_def by (simp add: inj_map_eq_map inj_on_def)

text \<open>The size test \<open>file.size / 1024 < 30\<close> is the test \<open>file.size < 30720\<close> on the bytes.\<close>

lemma sizeKB_less_30: "(of_nat n :: rat) / 1024 < 30 \<longleftrightarrow> n < 30720"
proof -
  have "(of_nat n :: rat) / 1024 < 30 \<longleftrightarrow> (of_nat n :: rat) < of_nat 30720"
    by (simp add: divide_less_eq)
  also have "\<dots> \<longleftrightarrow> n < 30720"
    by (simp only: of_nat_less_iff)
  finally show ?thesis .
qed

lemma set_allowedExt: "set allowedExt = {js ''.pdf'', js ''.jpg'', js ''.jpeg'', js ''.png''}"
  by (simp add: allowedExt_def)

lemma analyzeDocument_ok:
  "doc_result.ok (analyzeDocument file type) =
     (toLowerCase (extname (originalname file)) \<in> set allowedExt \<and> \<not> size_bytes file < 30720)"
  by (simp add: analyzeDocument_def Let_def sizeKB_less_30)

lemma analyzeDocument_scoreImpact:
  "doc_result.scoreImpact (analyzeDocument file type) =
     (if toLowerCase (extname (originalname file)) \<notin> set allowedExt then - 20
      else if size_bytes file < 30720 then - 15
      else if type = js ''passport'' then 15
      else if type = js ''bank'' then 20
      else if type = js ''offer'' then 15
      else 5)"
  by (simp add: analyzeDocument_def Let_def sizeKB_less_30)

text \<open>The lower-cased extensions of three names used as examples below.\<close>

lemma ext_cv_docx: "toLowerCase (extname (js ''cv.docx'')) = js ''.docx''"
  by (simp add: extname_def slice_def toLowerCase_def lowerUnit_def js_def)

lemma ext_ID_PDF: "toLowerCase (extname (js ''ID.PDF'')) = js ''.pdf''"
  by (simp add: extname_def slice_def toLowerCase_def lowerUnit_def js_def)

lemma ext_id_pdf: "toLowerCase (extname (js ''id.pdf'')) = js ''.pdf''"
  by (simp add: extname_def slice_def toLowerCase_def lowerUnit_def js_def)

text \<open>
  Claim C4. The validator applies its rules in order, the first that matches deciding:
  a lower-cased extension of \<open>originalname\<close> outside \<open>.pdf\<close>, \<open>.jpg\<close>, \<open>.jpeg\<close>,
  \<open>.png\<close> gives \<open>ok = false\<close> and impact \<open>-20\<close>, whatever the role and the size;
  otherwise a size with \<open>size / 1024 < 30\<close> gives \<open>ok = false\<close> and impact \<open>-15\<close>;
  otherwise \<open>ok = true\<close>, with impact 15 for the role \<open>passport\<close>, 20 for \<open>bank\<close>,
  15 for \<open>offer\<close> and 5 for every other role.
\<close>

theorem analyzeDocument_rules:
  "(toLowerCase (extname (originalname file)) \<notin> {js ''.pdf'', js ''.jpg'', js ''.jpeg'', js ''.png''}
      \<longrightarrow> doc_result.ok (analyzeDocument file type) = False
          \<and> doc_result.scoreImpact (analyzeDocument file type) = - 20)
   \<and> (toLowerCase (extname (originalname file)) \<in> {js ''.pdf'', js ''.jpg'', js ''.jpeg'', js ''.png''}
        \<and> (of_nat (size_bytes file) :: rat) / 1024 < 30
      \<longrightarrow> doc_result.ok (analyzeDocument file type) = False
          \<and> doc_result.scoreImpact (analyzeDocument file type) = - 15)
   \<and> (toLowerCase (extname (originalname file)) \<in> {js ''.pdf'', js ''.jpg'', js ''.jpeg'', js ''.png''}
        \<and> \<not> (of_nat (size_bytes file) :: rat) / 1024 < 30
      \<longrightarrow> doc_result.ok (analyzeDocument file type) = True
          \<and> doc_result.scoreImpact (analyzeDocument file type) =
              (if type = js ''passport'' then 15
               else if type = js ''bank'' then 20
               else if type = js ''offer'' then 15
               else 5))"
  unfolding analyzeDocument_ok analyzeDocument_scoreImpact set_allowedExt sizeKB_less_30
  by simp

text \<open>
  The three rules at work: a \<open>.docx\<close> file of any size, a PDF of 10 KB, and a PDF of
  exactly 30 KB in the role \<open>bank\<close>.
\<close>

theorem analyzeDocument_rules_witness:
  "(doc_result.ok (analyzeDocument \<lparr>originalname = js ''cv.docx'', size_bytes = 99999\<rparr> (js ''bank'')) = False
    \<and> doc_result.scoreImpact (analyzeDocument \<lparr>originalname = js ''cv.docx'', size_bytes = 99999\<rparr> (js ''bank'')) = - 20)
   \<and> (doc_result.ok (analyzeDocument \<lparr>originalname = js ''ID.PDF'', size_bytes = 10240\<rparr> (js ''bank'')) = False
    \<and> doc_result.scoreImpact (analyzeDocument \<lparr>originalname = js ''ID.PDF'', size_bytes = 10240\<rparr> (js ''bank'')) = - 15)
   \<and> (doc_result.ok (analyzeDocument \<lparr>originalname = js ''ID.PDF'', size_bytes = 30720\<rparr> (js ''bank'')) = True
    \<and> doc_result.scoreImpact (analyzeDocument \<lparr>originalname = js ''ID.PDF'', size_bytes = 30720\<rparr> (js ''bank'')) = 20)"
  using analyzeDocument_rules [of "\<lparr>originalname = js ''cv.docx'', size_bytes = 99999\<rparr>" "js ''bank''"]
        analyzeDocument_rules [of "\<lparr>originalname = js ''ID.PDF'', size_bytes = 10240\<rparr>" "js ''bank''"]
        analyzeDocument_rules [of "\<lparr>originalname = js ''ID.PDF'', size_bytes = 30720\<rparr>" "js ''bank''"]
  by (simp add: ext_cv_docx ext_ID_PDF)

text \<open>
  Claim C10. For every file and role the verdict has \<open>ok = true\<close> exactly when its
  \<open>scoreImpact\<close> is positive: an accepted document has impact 5, 15 or 20, a rejected
  one \<open>-20\<close> or \<open>-15\<close>.
\<close>

theorem ok_iff_positive_impact:
  "(doc_result.ok (analyzeDocument file type) \<longleftrightarrow> doc_result.scoreImpact (analyzeDocument file type) > 0)
   \<and> (doc_result.ok (analyzeDocument file type)
        \<longrightarrow> doc_result.scoreImpact (analyzeDocument file type) \<in> {5, 15, 20})
   \<and> (\<not> doc_result.ok (analyzeDocument file type)
        \<longrightarrow> doc_result.scoreImpact (analyzeDocument file type) \<in> {- 20, - 15})"
  unfolding analyzeDocument_ok analyzeDocument_scoreImpact by simp

theorem ok_iff_positive_impact_witness:
  "doc_result.ok (analyzeDocument \<lparr>originalname = js ''ID.PDF'', size_bytes = 30720\<rparr> (js ''other''))
   \<and> doc_result.scoreImpact (analyzeDocument \<lparr>originalname = js ''ID.PDF'', size_bytes = 30720\<rparr> (js ''other'')) = 5
   \<and> \<not> doc_result.ok (analyzeDocument \<lparr>originalname = js ''cv.docx'', size_bytes = 30720\<rparr> (js ''other''))
   \<and> doc_result.scoreImpact (analyzeDocument \<lparr>originalname = js ''cv.docx'', size_bytes = 30720\<rparr> (js ''other'')) = - 20"
  using ok_iff_positive_impact [of "\<lparr>originalname = js ''ID.PDF'', size_bytes = 30720\<rparr>" "js ''other''"]
        ok_iff_positive_impact [of "\<lparr>originalname = js ''cv.docx'', size_bytes = 30720\<rparr>" "js ''other''"]
  by (simp add: analyzeDocument_ok analyzeDocument_scoreImpact set_allowedExt ext_cv_docx ext_ID_PDF)

section \<open>The extension test ignores letter case\<close>

text \<open>
  The scan of \<open>path.extname\<close> looks at a code unit only to ask whether it is the slash
  or the dot, so two names that agree on these two questions at every position go
  through the same states.
\<close>

lemma extname_loop_cong:
  assumes "\<forall>i<n. (p ! i = 47 \<longleftrightarrow> q ! i = 47) \<and> (p ! i = 46 \<longleftrightarrow> q ! i = 46)"
  shows "extname_loop p n st = extname_loop q n st"
  using assms
proof (induction n arbitrary: st)
  case 0
  show ?case by simp
next
  case (Suc n)
  have here: "(p ! n = 47 \<longleftrightarrow> q ! n = 47) \<and> (p ! n = 46 \<longleftrightarrow> q ! n = 46)"
    using Suc.prems by simp
  have below: "\<forall>i<n. (p ! i = 47 \<longleftrightarrow> q ! i = 47) \<and> (p ! i = 46 \<longleftrightarrow> q ! i = 46)"
    using Suc.prems by simp
  note IH = Suc.IH [OF below]
  show ?case
    using here by (simp add: IH Let_def)
qed

lemma lowerUnit_slash: "lowerUnit c = 47 \<longleftrightarrow> c = 47"
  by (auto simp: lowerUnit_def)

lemma lowerUnit_dot: "lowerUnit c = 46 \<longleftrightarrow> c = 46"
  by (auto simp: lowerUnit_def)

lemma slice_map: "slice (map f s) a b = map f (slice s a b)"
  by (simp add: slice_def take_map drop_map)

lemma extname_toLowerCase: "extname (toLowerCase s) = toLowerCase (extname s)"
proof -
  have "extname_loop (map lowerUnit s) (length s) st = extname_loop s (length s) st" for st
    by (rule extname_loop_cong) (simp add: lowerUnit_slash lowerUnit_dot)
  then show ?thesis
    by (simp add: extname_def toLowerCase_def Let_def slice_map)
qed

text \<open>The verdict depends on the file only through its lower-cased extension and its size.\<close>

lemma analyzeDocument_ext:
  assumes "toLowerCase (extname (originalname f)) = toLowerCase (extname (originalname g))"
    and "size_bytes f = size_bytes g"
  shows "analyzeDocument f type = analyzeDocument g type"
  using assms by (simp add: analyzeDocument_def Let_def)

lemma lower_ID_PDF: "toLowerCase (js ''ID.PDF'') = toLowerCase (js ''id.pdf'')"
  by (simp add: toLowerCase_def lowerUnit_def js_def)

text \<open>
  Claim C9. The extension test is case-insensitive: two files of the same size whose
  names differ only in the case of their letters (so in particular a name with its
  extension in capitals and the same name with the extension in small letters) get
  the same verdict for every role: the same \<open>ok\<close>, the same \<open>scoreImpact\<close>, and the
  same note.
\<close>

theorem extension_case_insensitive:
  "toLowerCase (originalname f) = toLowerCase (originalname g) \<Longrightarrow> size_bytes f = size_bytes g
   \<Longrightarrow> analyzeDocument f type = analyzeDocument g type"
proof -
  assume names: "toLowerCase (originalname f) = toLowerCase (originalname g)"
    and sizes: "size_bytes f = size_bytes g"
  have "toLowerCase (extname (originalname f)) = extname (toLowerCase (originalname f))"
    by (simp add: extname_toLowerCase)
  also have "\<dots> = extname (toLowerCase (originalname g))"
    by (simp add: names)
  also have "\<dots> = toLowerCase (extname (originalname g))"
    by (simp add: extname_toLowerCase)
  finally show ?thesis
    using sizes by (rule analyzeDocument_ext)
qed

text \<open>\<open>"ID.PDF"\<close> is accepted as \<open>"id.pdf"\<close> is.\<close>

theorem extension_case_insensitive_witness:
  "toLowerCase (js ''ID.PDF'') = toLowerCase (js ''id.pdf'')
   \<and> analyzeDocument \<lparr>originalname = js ''ID.PDF'', size_bytes = 40000\<rparr> (js ''passport'')
     = analyzeDocument \<lparr>originalname = js ''id.pdf'', size_bytes = 40000\<rparr> (js ''passport'')
   \<and> doc_result.ok (analyzeDocument \<lparr>originalname = js ''ID.PDF'', size_bytes = 40000\<rparr> (js ''passport''))"
  using extension_case_insensitive [of "\<lparr>originalname = js ''ID.PDF'', size_bytes = 40000\<rparr>"
      "\<lparr>originalname = js ''id.pdf'', size_bytes = 40000\<rparr>" "js ''passport''"]
  by (simp add: lower_ID_PDF analyzeDocument_ok ext_ID_PDF ext_id_pdf set_allowedExt)

section \<open>Properties of the score\<close>

text \<open>The loop over the documents adds up their impacts.\<close>

lemma foldl_scoreImpact:
  "foldl (\<lambda>b d. b + scoreImpact d) a ds = a + sum_list (map scoreImpact ds)"
  by (induction ds arbitrary: a) simp_all

text \<open>
  The three fields of the result, each written out: the score is the clamped sum of
  the base 50, the impacts and the four adjustments; the band is read off the score;
  the reasons are appended in the order of the code.
\<close>

lemma computeScore_score:
  "score_info.score (computeScore profile docResults) =
     max 0 (min 100
       (50 + sum_list (map scoreImpact docResults)
        + (if gt (parseInt (toString (js_or (field profile ''funds'') (JStr (js ''0''))))) 150000 then 10
           else if lt (parseInt (toString (js_or (field profile ''funds'') (JStr (js ''0''))))) 50000 then - 10
           else 0)
        + (if field profile ''education'' = JStr (js ''Masters'')
              \<or> field profile ''education'' = JStr (js ''PhD'') then 5 else 0)
        + (if field profile ''past_visa'' = JStr (js ''3+'') then 5 else 0)
        - (if field profile ''past_visa'' = JStr (js ''None'') then 5 else 0)))"
  apply (cases "gt (parseInt (toString (js_or (field profile ''funds'') (JStr (js ''0''))))) 150000";
      cases "lt (parseInt (toString (js_or (field profile ''funds'') (JStr (js ''0''))))) 50000";
      cases "field profile ''education'' = JStr (js ''Masters'')
              \<or> field profile ''education'' = JStr (js ''PhD'')";
      cases "field profile ''past_visa'' = JStr (js ''3+'')";
      cases "field profile ''past_visa'' = JStr (js ''None'')")
  apply (simp_all only: computeScore_def Let_def if_True if_False score_info.select_convs foldl_scoreImpact)
  apply simp_all
  done

lemma computeScore_plain:
  "score_info.plain (computeScore profile docResults) =
     (if score_info.score (computeScore profile docResults) \<ge> 75 then js ''Highly likely''
      else if score_info.score (computeScore profile docResults) \<ge> 60 then js ''Likely''
      else if score_info.score (computeScore profile docResults) \<ge> 45 then js ''Borderline''
      else js ''Unlikely'')"
  by (simp only: computeScore_def Let_def score_info.select_convs)

lemma computeScore_reasons:
  "score_info.reasons (computeScore profile docResults) =
     (if gt (parseInt (toString (js_or (field profile ''funds'') (JStr (js ''0''))))) 150000
        then [js ''Strong financial capacity'']
      else if lt (parseInt (toString (js_or (field profile ''funds'') (JStr (js ''0''))))) 50000
        then [js ''Low declared funds '' @ [8211] @ js '' risk on finances'']
      else [js ''Funds appear moderate for stay''])
     @ (if field profile ''education'' = JStr (js ''Masters'')
           \<or> field profile ''education'' = JStr (js ''PhD'')
        then [js ''Advanced education supports purpose''] else [])
     @ (if field profile ''past_visa'' = JStr (js ''3+'')
        then [js ''Good travel history '' @ [8211] @ js '' positive signal''] else [])
     @ (if field profile ''past_visa'' = JStr (js ''None'')
        then [js ''No prior visa history '' @ [8211] @ js '' neutral or slightly risky''] else [])
     @ (if list_ex (\<lambda>d. \<not> ok d) docResults
        then [js ''One or more documents look weak or invalid''] else [])"
  by (simp only: computeScore_def Let_def score_info.select_convs append_Nil append_assoc)

subsection \<open>The funds of a profile\<close>

lemma parseInt_0: "parseInt (js ''0'') = Num 0"
  by (simp add: parseInt_def js_def isWhiteSpace_def isDigit_def digitsValue_def)

lemma parseInt_abc: "parseInt (js ''abc'') = NaN"
  by (simp add: parseInt_def js_def isWhiteSpace_def isDigit_def digitsValue_def)

text \<open>
  A missing \<open>funds\<close> field, and likewise \<open>null\<close>, \<open>false\<close>, the number 0 and the
  empty string, is replaced by the text \<open>'0'\<close> before it is parsed.
\<close>

lemma falsy_funds_parse:
  "\<not> truthy (field profile ''funds'')
   \<Longrightarrow> parseInt (toString (js_or (field profile ''funds'') (JStr (js ''0'')))) = Num 0"
  by (simp add: js_or_def parseInt_0)

lemma missing_field: "profile k = None \<Longrightarrow> field profile k = JUndefined"
  by (simp add: field_def)

text \<open>The values that \<open>profile.funds || '0'\<close> replaces.\<close>

lemma falsy_values:
  "\<not> truthy v \<longleftrightarrow> v \<in> {JUndefined, JNull, JBool False, JNum 0, JStr []}"
  by (cases v) auto

text \<open>
  A number in the \<open>funds\<close> field is written as its decimal numeral and read back by
  \<open>parseInt\<close> unchanged, so a numeric field is compared as the number it is.
\<close>

lemma decimal_digits: "c \<in> set (decimal n) \<Longrightarrow> isDigit c"
proof (induction n arbitrary: c rule: decimal.induct)
  case (1 n)
  show ?case
  proof (cases "n < 10")
    case True
    with "1.prems" show ?thesis
      by (simp add: decimal.simps [of n] isDigit_def)
  next
    case False
    with "1.prems" have "c \<in> set (decimal (n div 10)) \<or> c = 48 + n mod 10"
      by (auto simp add: decimal.simps [of n])
    then show ?thesis
    proof
      assume "c \<in> set (decimal (n div 10))"
      with False show ?thesis by (simp add: "1.IH")
    next
      assume "c = 48 + n mod 10"
      then show ?thesis by (simp add: isDigit_def)
    qed
  qed
qed

lemma decimal_not_Nil: "decimal n \<noteq> []"
  by (simp add: decimal.simps [of n])

lemma digitsValue_snoc: "digitsValue (z @ [c]) = 10 * digitsValue z + (c - 48)"
  by (simp add: digitsValue_def)

lemma digitsValue_decimal: "digitsValue (decimal n) = n"
proof (induction n rule: decimal.induct)
  case (1 n)
  show ?case
  proof (cases "n < 10")
    case True
    then show ?thesis
      by (simp add: decimal.simps [of n] digitsValue_def)
  next
    case False
    with 1 have "digitsValue (decimal (n div 10)) = n div 10"
      by simp
    with False show ?thesis
      by (simp add: decimal.simps [of n] digitsValue_snoc)
  qed
qed

lemma digit_not_space: "isDigit c \<Longrightarrow> \<not> isWhiteSpace c \<and> c \<noteq> 43 \<and> c \<noteq> 45"
  by (auto simp: isDigit_def isWhiteSpace_def)

lemma parseInt_decimal: "parseInt (decimal n) = Num (int n)"
proof -
  obtain c cs where d: "decimal n = c # cs"
    using decimal_not_Nil [of n] by (cases "decimal n") auto
  have digits: "\<forall>x\<in>set (c # cs). isDigit x"
    using decimal_digits [of _ n] d by auto
  then have c: "\<not> isWhiteSpace c" "c \<noteq> 43" "c \<noteq> 45"
    using digit_not_space [of c] by auto
  have "takeWhile isDigit (c # cs) = c # cs"
    using digits by (simp only: takeWhile_eq_all_conv) 
  then have "parseInt (c # cs) = Num (int (digitsValue (c # cs)))"
    using c by (simp add: parseInt_def Let_def)
  then show ?thesis
    by (simp add: d [symmetric] digitsValue_decimal)
qed

lemma parseInt_minus_decimal: "parseInt (45 # decimal n) = Num (- int n)"
proof -
  have digits: "\<forall>x\<in>set (decimal n). isDigit x"
    using decimal_digits [of _ n] by auto
  have all: "takeWhile isDigit (decimal n) = decimal n"
    using digits by (simp only: takeWhile_eq_all_conv)
  have "\<not> isWhiteSpace 45"
    by (simp add: isWhiteSpace_def)
  then show ?thesis
    by (simp add: parseInt_def Let_def all decimal_not_Nil digitsValue_decimal)
qed

lemma parseInt_toString_JNum: "parseInt (toString (JNum n)) = Num n"
proof (cases "n < 0")
  case True
  then show ?thesis
    by (simp add: parseInt_minus_decimal)
next
  case False
  then show ?thesis
    by (simp add: parseInt_decimal)
qed

lemma number_funds:
  "parseInt (toString (js_or (JNum n) (JStr (js ''0'')))) = Num n"
proof (cases "n = 0")
  case True
  then show ?thesis
    by (simp add: js_or_def parseInt_0)
next
  case False
  then have "js_or (JNum n) (JStr (js ''0'')) = JNum n"
    by (simp add: js_or_def)
  then show ?thesis
    by (simp only: parseInt_toString_JNum)
qed

lemma reason_texts_differ:
  "js ''Funds appear moderate for stay'' \<noteq> js ''Low declared funds '' @ [8211] @ js '' risk on finances''"
  "js ''Funds appear moderate for stay'' \<noteq> js ''Good travel history '' @ [8211] @ js '' positive signal''"
  "js ''Funds appear moderate for stay'' \<noteq> js ''No prior visa history '' @ [8211] @ js '' neutral or slightly risky''"
  by (simp_all add: js_def)

lemma score_empty_profile:
  "score_info.score (computeScore Map.empty docResults)
     = max 0 (min 100 (40 + sum_list (map scoreImpact docResults)))"
proof -
  have "parseInt (toString (js_or (field Map.empty ''funds'') (JStr (js ''0'')))) = Num 0"
    by (rule falsy_funds_parse) (simp add: field_def)
  then show ?thesis
    unfolding computeScore_score by (simp add: field_def)
qed

text \<open>
  Claim C1, as the code has it. A profile whose \<open>funds\<close> field is missing, or is
  \<open>null\<close>, \<open>false\<close>, 0 or the empty string, has its funds read as 0: the score
  receives the adjustment \<open>-10\<close>, and the list of reasons begins with
  \<open>Low declared funds - risk on finances\<close> and does not contain
  \<open>Funds appear moderate for stay\<close>.
\<close>

theorem falsy_funds_low:
  "\<not> truthy (field profile ''funds'') \<Longrightarrow>
     parseInt (toString (js_or (field profile ''funds'') (JStr (js ''0'')))) = Num 0
   \<and> score_info.score (computeScore profile docResults) =
       max 0 (min 100
         (50 + sum_list (map scoreImpact docResults) - 10
          + (if field profile ''education'' = JStr (js ''Masters'')
                \<or> field profile ''education'' = JStr (js ''PhD'') then 5 else 0)
          + (if field profile ''past_visa'' = JStr (js ''3+'') then 5 else 0)
          - (if field profile ''past_visa'' = JStr (js ''None'') then 5 else 0)))
   \<and> hd (score_info.reasons (computeScore profile docResults))
       = js ''Low declared funds '' @ [8211] @ js '' risk on finances''
   \<and> js ''Low declared funds '' @ [8211] @ js '' risk on finances''
       \<in> set (score_info.reasons (computeScore profile docResults))
   \<and> js ''Funds appear moderate for stay''
       \<notin> set (score_info.reasons (computeScore profile docResults))"
proof -
  assume falsy: "\<not> truthy (field profile ''funds'')"
  have funds: "parseInt (toString (js_or (field profile ''funds'') (JStr (js ''0'')))) = Num 0"
    using falsy by (rule falsy_funds_parse)
  have "score_info.score (computeScore profile docResults) =
       max 0 (min 100
         (50 + sum_list (map scoreImpact docResults) - 10
          + (if field profile ''education'' = JStr (js ''Masters'')
                \<or> field profile ''education'' = JStr (js ''PhD'') then 5 else 0)
          + (if field profile ''past_visa'' = JStr (js ''3+'') then 5 else 0)
          - (if field profile ''past_visa'' = JStr (js ''None'') then 5 else 0)))"
    unfolding computeScore_score funds by simp
  moreover have "hd (score_info.reasons (computeScore profile docResults))
       = js ''Low declared funds '' @ [8211] @ js '' risk on finances''"
    unfolding computeScore_reasons funds by simp
  moreover have "js ''Low declared funds '' @ [8211] @ js '' risk on finances''
       \<in> set (score_info.reasons (computeScore profile docResults))"
    unfolding computeScore_reasons funds by simp
  moreover have "js ''Funds appear moderate for stay''
       \<notin> set (score_info.reasons (computeScore profile docResults))"
    unfolding computeScore_reasons funds by (simp add: reason_texts_differ js_def)
  ultimately show ?thesis using funds by blast
qed

text \<open>The profile without any field, and no document: 50 - 10 = 40.\<close>

theorem falsy_funds_low_witness:
  "\<not> truthy (field Map.empty ''funds'')
   \<and> score_info.score (computeScore Map.empty []) = 40
   \<and> score_info.reasons (computeScore Map.empty [])
       = [js ''Low declared funds '' @ [8211] @ js '' risk on finances'']"
  using falsy_funds_low [of Map.empty "[]"]
  by (simp add: field_def computeScore_reasons)

text \<open>
  The claim as the specification words it also covers a \<open>funds\<close> text that is not
  numeric, and fails there. For the funds \<open>"abc"\<close>, \<open>parseInt\<close> gives \<open>NaN\<close>, both
  comparisons are false, the score keeps the base 50, and the only reason is
  \<open>Funds appear moderate for stay\<close>.
\<close>

theorem nonnumeric_funds_counterexample:
  "parseInt (toString (js_or (field [''funds'' \<mapsto> JStr (js ''abc'')] ''funds'') (JStr (js ''0'')))) = NaN
   \<and> score_info.score (computeScore [''funds'' \<mapsto> JStr (js ''abc'')] []) = 50
   \<and> score_info.reasons (computeScore [''funds'' \<mapsto> JStr (js ''abc'')] [])
       = [js ''Funds appear moderate for stay'']"
proof -
  have funds: "parseInt (toString (js_or (field [''funds'' \<mapsto> JStr (js ''abc'')] ''funds'') (JStr (js ''0'')))) = NaN"
  proof -
    have "truthy (JStr (js ''abc''))"
      by (simp add: js_def)
    then show ?thesis
      by (simp add: field_def js_or_def parseInt_abc)
  qed
  have other: "field [''funds'' \<mapsto> JStr (js ''abc'')] ''education'' = JUndefined"
    "field [''funds'' \<mapsto> JStr (js ''abc'')] ''past_visa'' = JUndefined"
    by (simp_all add: field_def)
  show ?thesis
    unfolding computeScore_score computeScore_reasons funds other by simp
qed

subsection \<open>The band\<close>

text \<open>Every score from 0 to 100 is the score of some list of documents.\<close>

lemma every_score_reached:
  assumes "0 \<le> s" "s \<le> 100"
  shows "\<exists>docResults. score_info.score (computeScore profile docResults) = s"
proof -
  define a where "a =
    (if gt (parseInt (toString (js_or (field profile ''funds'') (JStr (js ''0''))))) 150000 then 10
     else if lt (parseInt (toString (js_or (field profile ''funds'') (JStr (js ''0''))))) 50000 then - 10
     else 0 :: int)
    + (if field profile ''education'' = JStr (js ''Masters'')
          \<or> field profile ''education'' = JStr (js ''PhD'') then 5 else 0)
    + (if field profile ''past_visa'' = JStr (js ''3+'') then 5 else 0)
    - (if field profile ''past_visa'' = JStr (js ''None'') then 5 else 0)"
  have "score_info.score (computeScore profile ds) = max 0 (min 100 (50 + sum_list (map scoreImpact ds) + a))"
    for ds
    unfolding computeScore_score a_def by (simp only: add.assoc diff_conv_add_uminus)
  then have "score_info.score (computeScore profile
       [\<lparr>doc_public.name = [], ok = True, note = [], scoreImpact = s - 50 - a\<rparr>]) = s"
    using assms by simp
  then show ?thesis ..
qed

text \<open>
  Claim C3. The band of a result is decided by its (clamped) score alone, the highest
  threshold first: \<open>Highly likely\<close> exactly from 75 on, \<open>Likely\<close> exactly from 60 to
  74, \<open>Borderline\<close> exactly from 45 to 59, \<open>Unlikely\<close> exactly below 45. The four
  texts differ, so a score has exactly one band and each of 45, 60 and 75 lies in the
  higher one; and every integer from 0 to 100 occurs as a score.
\<close>

theorem band_mapping:
  "(score_info.plain (computeScore profile docResults) = js ''Highly likely''
      \<longleftrightarrow> 75 \<le> score_info.score (computeScore profile docResults))
   \<and> (score_info.plain (computeScore profile docResults) = js ''Likely''
      \<longleftrightarrow> 60 \<le> score_info.score (computeScore profile docResults)
          \<and> score_info.score (computeScore profile docResults) < 75)
   \<and> (score_info.plain (computeScore profile docResults) = js ''Borderline''
      \<longleftrightarrow> 45 \<le> score_info.score (computeScore profile docResults)
          \<and> score_info.score (computeScore profile docResults) < 60)
   \<and> (score_info.plain (computeScore profile docResults) = js ''Unlikely''
      \<longleftrightarrow> score_info.score (computeScore profile docResults) < 45)
   \<and> (\<forall>s. 0 \<le> s \<and> s \<le> 100 \<longrightarrow> (\<exists>ds. score_info.score (computeScore profile ds) = s))"
proof -
  have "\<forall>s. 0 \<le> s \<and> s \<le> 100 \<longrightarrow> (\<exists>ds. score_info.score (computeScore profile ds) = s)"
    using every_score_reached by blast
  then show ?thesis
    unfolding computeScore_plain by simp
qed

text \<open>The scores 75, 60, 45 and 44, reached with one document of impact 35, 20, 5 and 4.\<close>

theorem band_mapping_witness:
  "score_info.plain (computeScore Map.empty
      [\<lparr>doc_public.name = [], ok = True, note = [], scoreImpact = 35\<rparr>]) = js ''Highly likely''
   \<and> score_info.plain (computeScore Map.empty
      [\<lparr>doc_public.name = [], ok = True, note = [], scoreImpact = 20\<rparr>]) = js ''Likely''
   \<and> score_info.plain (computeScore Map.empty
      [\<lparr>doc_public.name = [], ok = True, note = [], scoreImpact = 5\<rparr>]) = js ''Borderline''
   \<and> score_info.plain (computeScore Map.empty
      [\<lparr>doc_public.name = [], ok = True, note = [], scoreImpact = 4\<rparr>]) = js ''Unlikely''"
  using band_mapping [of Map.empty "[\<lparr>doc_public.name = [], ok = True, note = [], scoreImpact = 35\<rparr>]"]
        band_mapping [of Map.empty "[\<lparr>doc_public.name = [], ok = True, note = [], scoreImpact = 20\<rparr>]"]
        band_mapping [of Map.empty "[\<lparr>doc_public.name = [], ok = True, note = [], scoreImpact = 5\<rparr>]"]
        band_mapping [of Map.empty "[\<lparr>doc_public.name = [], ok = True, note = [], scoreImpact = 4\<rparr>]"]
  by (simp add: score_empty_profile)

section \<open>Properties of the route\<close>

subsection \<open>The outcomes of the handler\<close>

lemma api_analyze_malformed:
  "api_analyze Malformed files = Inl (Failure 500 (js ''Internal error analyzing profile''))"
  by (simp add: api_analyze_def)

lemma api_analyze_missing:
  assumes "passport files = None \<or> bank files = None \<or> offer files = None"
    and "body \<noteq> Malformed"
  shows "api_analyze body files =
     Inl (Failure 400
       (js ''Missing required documents. Please upload passport, bank statement, and offer letter.''))"
  using assms by (cases body) (simp_all add: api_analyze_def Let_def)

lemma api_analyze_null:
  assumes "passport files = Some fp" "bank files = Some fb" "offer files = Some fo"
  shows "api_analyze JsonNull files = Inl (Failure 500 (js ''Internal error analyzing profile''))"
  using assms by (simp add: api_analyze_def Let_def)

lemma api_analyze_success:
  assumes "passport files = Some fp" "bank files = Some fb" "offer files = Some fo"
  shows "api_analyze (JsonObject profile) files =
     Inr \<lparr>analysis_result.score = score_info.score (computeScore profile (assessed fp fb fo)),
          plain = score_info.plain (computeScore profile (assessed fp fb fo)),
          reasons = score_info.reasons (computeScore profile (assessed fp fb fo)),
          docs = map doc_public.truncate (assessed fp fb fo),
          twin = \<lparr>twin_summary.name = js_or (field profile ''name'') (JStr (js ''Applicant'')),
                  confidence = 80,
                  traits =
                    [if field profile ''past_visa'' = JStr (js ''None'')
                     then js ''Low travel history'' else js ''Experienced traveller'',
                     if score_info.score (computeScore profile (assessed fp fb fo)) \<ge> 70
                     then js ''Low risk profile'' else js ''Medium risk profile'']\<rparr>,
          countries =
            [\<lparr>country.name = js ''Canada'',
              score = min 100 (score_info.score (computeScore profile (assessed fp fb fo)) + 3),
              flag = [55356, 56808, 55356, 56806],
              reason = js ''Study funds okay; program alignment good.''\<rparr>,
             \<lparr>country.name = js ''UK'',
              score = max 0 (score_info.score (computeScore profile (assessed fp fb fo)) - 8),
              flag = [55356, 56812, 55356, 56807],
              reason = js ''Needs stronger financial and document history.''\<rparr>,
             \<lparr>country.name = js ''Australia'',
              score = min 100 (score_info.score (computeScore profile (assessed fp fb fo)) + 5),
              flag = [55356, 56806, 55356, 56826],
              reason = js ''Profile matches skill/education demand.''\<rparr>],
          risk =
            [\<lparr>label = js ''Finances'',
              value = fundsRisk (score_info.score (computeScore profile (assessed fp fb fo)))\<rparr>,
             \<lparr>label = js ''Docs'', value = docsRisk (assessed fp fb fo)\<rparr>,
             \<lparr>label = js ''Travel History'',
              value = (if field profile ''past_visa'' = JStr (js ''None'') then 60 else 25)\<rparr>,
             \<lparr>label = js ''Purpose'',
              value = (if field profile ''purpose'' = JStr (js ''Study'')
                          \<or> field profile ''purpose'' = JStr (js ''Work'')
                       then 20 else 40)\<rparr>]\<rparr>"
  using assms
  by (simp only: api_analyze_def assessed_def Let_def payload.case option.sel option.distinct
        simp_thms if_False append_Nil append.simps)

text \<open>A result comes only from a decoded object and three files.\<close>

lemma api_analyze_Inr:
  assumes "api_analyze body files = Inr r"
  obtains profile fp fb fo where "body = JsonObject profile"
    "passport files = Some fp" "bank files = Some fb" "offer files = Some fo"
proof -
  have body: "body \<noteq> Malformed"
    using assms by (auto simp: api_analyze_malformed)
  have "\<not> (passport files = None \<or> bank files = None \<or> offer files = None)"
  proof
    assume "passport files = None \<or> bank files = None \<or> offer files = None"
    then have "api_analyze body files =
      Inl (Failure 400
        (js ''Missing required documents. Please upload passport, bank statement, and offer letter.''))"
      using body by (rule api_analyze_missing)
    with assms show False by simp
  qed
  then obtain fp fb fo where
    files: "passport files = Some fp" "bank files = Some fb" "offer files = Some fo"
    by auto
  have "body \<noteq> JsonNull"
    using assms api_analyze_null [OF files] by auto
  with body obtain profile where obj: "body = JsonObject profile"
    by (cases body) auto
  show thesis using obj files by (rule that)
qed

text \<open>The fields of a result, read off the successful run.\<close>

lemma api_analyze_fields:
  assumes run: "api_analyze (JsonObject profile) files = Inr r"
    and files: "passport files = Some fp" "bank files = Some fb" "offer files = Some fo"
  shows "analysis_result.score r = score_info.score (computeScore profile (assessed fp fb fo))"
    and "docs r = map doc_public.truncate (assessed fp fb fo)"
    and "countries r =
            [\<lparr>country.name = js ''Canada'',
              score = min 100 (score_info.score (computeScore profile (assessed fp fb fo)) + 3),
              flag = [55356, 56808, 55356, 56806],
              reason = js ''Study funds okay; program alignment good.''\<rparr>,
             \<lparr>country.name = js ''UK'',
              score = max 0 (score_info.score (computeScore profile (assessed fp fb fo)) - 8),
              flag = [55356, 56812, 55356, 56807],
              reason = js ''Needs stronger financial and document history.''\<rparr>,
             \<lparr>country.name = js ''Australia'',
              score = min 100 (score_info.score (computeScore profile (assessed fp fb fo)) + 5),
              flag = [55356, 56806, 55356, 56826],
              reason = js ''Profile matches skill/education demand.''\<rparr>]"
    and "risk r =
            [\<lparr>label = js ''Finances'',
              value = fundsRisk (score_info.score (computeScore profile (assessed fp fb fo)))\<rparr>,
             \<lparr>label = js ''Docs'', value = docsRisk (assessed fp fb fo)\<rparr>,
             \<lparr>label = js ''Travel History'',
              value = (if field profile ''past_visa'' = JStr (js ''None'') then 60 else 25)\<rparr>,
             \<lparr>label = js ''Purpose'',
              value = (if field profile ''purpose'' = JStr (js ''Study'')
                          \<or> field profile ''purpose'' = JStr (js ''Work'')
                       then 20 else 40)\<rparr>]"
proof -
  note s = api_analyze_success [OF files, of profile, unfolded run]
  show "analysis_result.score r = score_info.score (computeScore profile (assessed fp fb fo))"
    using s by simp
  show "docs r = map doc_public.truncate (assessed fp fb fo)"
    using s by simp
  show "countries r =
            [\<lparr>country.name = js ''Canada'',
              score = min 100 (score_info.score (computeScore profile (assessed fp fb fo)) + 3),
              flag = [55356, 56808, 55356, 56806],
              reason = js ''Study funds okay; program alignment good.''\<rparr>,
             \<lparr>country.name = js ''UK'',
              score = max 0 (score_info.score (computeScore profile (assessed fp fb fo)) - 8),
              flag = [55356, 56812, 55356, 56807],
              reason = js ''Needs stronger financial and document history.''\<rparr>,
             \<lparr>country.name = js ''Australia'',
              score = min 100 (score_info.score (computeScore profile (assessed fp fb fo)) + 5),
              flag = [55356, 56806, 55356, 56826],
              reason = js ''Profile matches skill/education demand.''\<rparr>]"
    using s by simp
  show "risk r =
            [\<lparr>label = js ''Finances'',
              value = fundsRisk (score_info.score (computeScore profile (assessed fp fb fo)))\<rparr>,
             \<lparr>label = js ''Docs'', value = docsRisk (assessed fp fb fo)\<rparr>,
             \<lparr>label = js ''Travel History'',
              value = (if field profile ''past_visa'' = JStr (js ''None'') then 60 else 25)\<rparr>,
             \<lparr>label = js ''Purpose'',
              value = (if field profile ''purpose'' = JStr (js ''Study'')
                          \<or> field profile ''purpose'' = JStr (js ''Work'')
                       then 20 else 40)\<rparr>]"
    using s by simp
qed

subsection \<open>The exposed documents\<close>

lemma truncate_assessed:
  "map doc_public.truncate (assessed fp fb fo) =
     [\<lparr>doc_public.name = js ''Passport'',
       ok = doc_result.ok (analyzeDocument fp (js ''passport'')),
       note = doc_result.note (analyzeDocument fp (js ''passport''))\<rparr>,
      \<lparr>doc_public.name = js ''Bank statement'',
       ok = doc_result.ok (analyzeDocument fb (js ''bank'')),
       note = doc_result.note (analyzeDocument fb (js ''bank''))\<rparr>,
      \<lparr>doc_public.name = js ''Offer letter'',
       ok = doc_result.ok (analyzeDocument fo (js ''offer'')),
       note = doc_result.note (analyzeDocument fo (js ''offer''))\<rparr>]"
  by (simp add: assessed_def doc_public.truncate_def)

lemma truncate_fields:
  "doc_public.name (doc_public.truncate e) = doc_public.name e"
  "doc_public.ok (doc_public.truncate e) = doc_public.ok e"
  "doc_public.note (doc_public.truncate e) = doc_public.note e"
  "doc_public.more (doc_public.truncate e) = ()"
  by (simp_all add: doc_public.truncate_def)

lemma bad_truncate:
  "filter (\<lambda>d. \<not> doc_public.ok d) (map doc_public.truncate ds)
     = map doc_public.truncate (filter (\<lambda>d. \<not> doc_public.ok d) ds)"
  by (induction ds) (simp_all add: truncate_fields)

lemma docsRisk_public:
  "docsRisk ds =
     (if length (filter (\<lambda>d. \<not> doc_public.ok d) (map doc_public.truncate ds)) = 0 then 25
      else if length (filter (\<lambda>d. \<not> doc_public.ok d) (map doc_public.truncate ds)) = 1 then 50
      else 70)"
  unfolding bad_truncate by (simp add: docsRisk_def Let_def)

subsection \<open>An example request\<close>

text \<open>
  No profile field, and the same valid PDF of 30 KB in all three fields: the impacts
  add up to 50, the funds read as 0 take 10 away, and the score is 90.
\<close>

lemma example_impacts:
  "sum_list (map scoreImpact
     (assessed \<lparr>originalname = js ''ID.PDF'', size_bytes = 30720\<rparr> \<lparr>originalname = js ''ID.PDF'', size_bytes = 30720\<rparr> \<lparr>originalname = js ''ID.PDF'', size_bytes = 30720\<rparr>)) = 50"
  by (simp add: assessed_def analyzeDocument_scoreImpact set_allowedExt ext_ID_PDF)

lemma example_all_ok:
  "filter (\<lambda>d. \<not> doc_public.ok d) (assessed \<lparr>originalname = js ''ID.PDF'', size_bytes = 30720\<rparr> \<lparr>originalname = js ''ID.PDF'', size_bytes = 30720\<rparr> \<lparr>originalname = js ''ID.PDF'', size_bytes = 30720\<rparr>) = []"
  by (simp add: assessed_def analyzeDocument_ok set_allowedExt ext_ID_PDF)

lemma example_score:
  "score_info.score (computeScore Map.empty (assessed \<lparr>originalname = js ''ID.PDF'', size_bytes = 30720\<rparr> \<lparr>originalname = js ''ID.PDF'', size_bytes = 30720\<rparr> \<lparr>originalname = js ''ID.PDF'', size_bytes = 30720\<rparr>)) = 90"
  by (simp add: score_empty_profile example_impacts)

lemma example_runs:
  "\<exists>r. api_analyze (JsonObject Map.empty)
     \<lparr>passport = Some \<lparr>originalname = js ''ID.PDF'', size_bytes = 30720\<rparr>,
        bank = Some \<lparr>originalname = js ''ID.PDF'', size_bytes = 30720\<rparr>,
        offer = Some \<lparr>originalname = js ''ID.PDF'', size_bytes = 30720\<rparr>\<rparr> = Inr r"
  by (simp add: api_analyze_success [of _ "\<lparr>originalname = js ''ID.PDF'', size_bytes = 30720\<rparr>"
        "\<lparr>originalname = js ''ID.PDF'', size_bytes = 30720\<rparr>" "\<lparr>originalname = js ''ID.PDF'', size_bytes = 30720\<rparr>"])

lemma example_result_score:
  assumes "api_analyze (JsonObject Map.empty)
     \<lparr>passport = Some \<lparr>originalname = js ''ID.PDF'', size_bytes = 30720\<rparr>,
        bank = Some \<lparr>originalname = js ''ID.PDF'', size_bytes = 30720\<rparr>,
        offer = Some \<lparr>originalname = js ''ID.PDF'', size_bytes = 30720\<rparr>\<rparr> = Inr r"
  shows "analysis_result.score r = 90"
  using api_analyze_fields(1) [OF assms, of "\<lparr>originalname = js ''ID.PDF'', size_bytes = 30720\<rparr>"
      "\<lparr>originalname = js ''ID.PDF'', size_bytes = 30720\<rparr>" "\<lparr>originalname = js ''ID.PDF'', size_bytes = 30720\<rparr>"]
  by (simp add: example_score)


subsection \<open>The destination country is not read\<close>

lemma field_dest_country:
  "field (profile(''dest_country'' := d)) ''funds'' = field profile ''funds''"
  "field (profile(''dest_country'' := d)) ''education'' = field profile ''education''"
  "field (profile(''dest_country'' := d)) ''past_visa'' = field profile ''past_visa''"
  "field (profile(''dest_country'' := d)) ''purpose'' = field profile ''purpose''"
  "field (profile(''dest_country'' := d)) ''name'' = field profile ''name''"
  by (simp_all add: field_def)

lemma computeScore_dest_country:
  "computeScore (profile(''dest_country'' := d)) docResults = computeScore profile docResults"
  by (simp only: computeScore_def field_dest_country)

lemma api_analyze_dest_country:
  "api_analyze (JsonObject (profile(''dest_country'' := d))) files
     = api_analyze (JsonObject profile) files"
proof (cases "passport files = None \<or> bank files = None \<or> offer files = None")
  case True
  then show ?thesis
    by (simp add: api_analyze_missing)
next
  case False
  then obtain fp fb fo where
    files: "passport files = Some fp" "bank files = Some fb" "offer files = Some fo"
    by auto
  show ?thesis
    by (simp only: api_analyze_success [OF files] computeScore_dest_country field_dest_country)
qed

subsection \<open>The claims on the route\<close>

text \<open>
  Claim C5. When one of the three document fields \<open>passport\<close>, \<open>bank\<close>, \<open>offer\<close> has no
  file, the handler answers every decoded profile (\<open>null\<close> or an object) with the
  validation error, status 400. The answer is this one value whatever the profile and
  the files that are present are, so no verdict of the validator and no score enters
  it; and the request has no result, for any payload.
\<close>

theorem missing_document_rejected:
  "passport files = None \<or> bank files = None \<or> offer files = None \<Longrightarrow>
     api_analyze JsonNull files = Inl (Failure 400 (js ''Missing required documents. Please upload passport, bank statement, and offer letter.''))
   \<and> api_analyze (JsonObject profile) files = Inl (Failure 400 (js ''Missing required documents. Please upload passport, bank statement, and offer letter.''))
   \<and> (\<forall>body r. api_analyze body files \<noteq> Inr r)"
proof -
  assume missing: "passport files = None \<or> bank files = None \<or> offer files = None"
  have "api_analyze JsonNull files = Inl (Failure 400 (js ''Missing required documents. Please upload passport, bank statement, and offer letter.''))"
    using missing by (rule api_analyze_missing) simp
  moreover have "api_analyze (JsonObject profile) files = Inl (Failure 400 (js ''Missing required documents. Please upload passport, bank statement, and offer letter.''))"
    using missing by (rule api_analyze_missing) simp
  moreover have "api_analyze body files \<noteq> Inr r" for body r
  proof
    assume "api_analyze body files = Inr r"
    then obtain fp fb fo where
      "passport files = Some fp" "bank files = Some fb" "offer files = Some fo"
      by (rule api_analyze_Inr)
    with missing show False by auto
  qed
  ultimately show ?thesis by blast
qed

text \<open>A request without the bank statement.\<close>

theorem missing_document_rejected_witness:
  "api_analyze (JsonObject Map.empty)
       \<lparr>passport = Some \<lparr>originalname = js ''ID.PDF'', size_bytes = 30720\<rparr>,
        bank = None,
        offer = Some \<lparr>originalname = js ''ID.PDF'', size_bytes = 30720\<rparr>\<rparr>
     = Inl (Failure 400 (js ''Missing required documents. Please upload passport, bank statement, and offer letter.''))"
  using missing_document_rejected [of "\<lparr>passport = Some \<lparr>originalname = js ''ID.PDF'', size_bytes = 30720\<rparr>,
        bank = None,
        offer = Some \<lparr>originalname = js ''ID.PDF'', size_bytes = 30720\<rparr>\<rparr>" Map.empty]
  by simp

text \<open>
  Claim C6. In every result the list \<open>countries\<close> is Canada, UK, Australia, in this
  order, with the scores \<open>min(100, s + 3)\<close>, \<open>max(0, s - 8)\<close> and \<open>min(100, s + 5)\<close> of
  the result's score \<open>s\<close> and with fixed flags and reasons. Two results with the same
  score therefore have the same list, and the field \<open>dest_country\<close> of the profile,
  whatever it holds or whether it is there, changes nothing in the answer.
\<close>

theorem countries_fixed_offsets:
  "api_analyze body files = Inr r \<Longrightarrow>
     countries r =
        [\<lparr>country.name = js ''Canada'',
          score = min 100 (analysis_result.score r + 3),
          flag = [55356, 56808, 55356, 56806],
          reason = js ''Study funds okay; program alignment good.''\<rparr>,
         \<lparr>country.name = js ''UK'',
          score = max 0 (analysis_result.score r - 8),
          flag = [55356, 56812, 55356, 56807],
          reason = js ''Needs stronger financial and document history.''\<rparr>,
         \<lparr>country.name = js ''Australia'',
          score = min 100 (analysis_result.score r + 5),
          flag = [55356, 56806, 55356, 56826],
          reason = js ''Profile matches skill/education demand.''\<rparr>]
   \<and> (\<forall>body' files' r'. api_analyze body' files' = Inr r'
          \<and> analysis_result.score r' = analysis_result.score r
        \<longrightarrow> countries r' = countries r)
   \<and> (\<forall>profile d. api_analyze (JsonObject (profile(''dest_country'' := d))) files
         = api_analyze (JsonObject profile) files)"
proof -
  assume run: "api_analyze body files = Inr r"
  have shape: "countries r =
        [\<lparr>country.name = js ''Canada'',
          score = min 100 (analysis_result.score r + 3),
          flag = [55356, 56808, 55356, 56806],
          reason = js ''Study funds okay; program alignment good.''\<rparr>,
         \<lparr>country.name = js ''UK'',
          score = max 0 (analysis_result.score r - 8),
          flag = [55356, 56812, 55356, 56807],
          reason = js ''Needs stronger financial and document history.''\<rparr>,
         \<lparr>country.name = js ''Australia'',
          score = min 100 (analysis_result.score r + 5),
          flag = [55356, 56806, 55356, 56826],
          reason = js ''Profile matches skill/education demand.''\<rparr>]"
    if "api_analyze body files = Inr r" for body files r
  proof -
    from that obtain profile fp fb fo where
      obj: "body = JsonObject profile"
      and files: "passport files = Some fp" "bank files = Some fb" "offer files = Some fo"
      by (rule api_analyze_Inr)
    have r: "api_analyze (JsonObject profile) files = Inr r"
      using that obj by simp
    show ?thesis
      unfolding api_analyze_fields(1,3) [OF r files] by (rule refl)
  qed
  have "countries r' = countries r"
    if "api_analyze body' files' = Inr r'"
      and "analysis_result.score r' = analysis_result.score r" for body' files' r'
    using shape [OF run] shape [OF that(1)] that(2) by simp
  then show ?thesis
    using shape [OF run] api_analyze_dest_country by blast
qed

text \<open>The example request has the score 90, and so the country scores 93, 82 and 95.\<close>

theorem countries_fixed_offsets_witness:
  "map_sum id (map country.score \<circ> countries)
     (api_analyze (JsonObject Map.empty)
       \<lparr>passport = Some \<lparr>originalname = js ''ID.PDF'', size_bytes = 30720\<rparr>,
        bank = Some \<lparr>originalname = js ''ID.PDF'', size_bytes = 30720\<rparr>,
        offer = Some \<lparr>originalname = js ''ID.PDF'', size_bytes = 30720\<rparr>\<rparr>)
     = Inr [93, 82, 95]"
proof -
  obtain r where run: "api_analyze (JsonObject Map.empty)
       \<lparr>passport = Some \<lparr>originalname = js ''ID.PDF'', size_bytes = 30720\<rparr>,
        bank = Some \<lparr>originalname = js ''ID.PDF'', size_bytes = 30720\<rparr>,
        offer = Some \<lparr>originalname = js ''ID.PDF'', size_bytes = 30720\<rparr>\<rparr> = Inr r"
    using example_runs by blast
  have "analysis_result.score r = 90"
    using run by (rule example_result_score)
  with countries_fixed_offsets [OF run] run show ?thesis
    by simp
qed

text \<open>
  Claim C7. In every result the list \<open>risk\<close> has exactly the four items Finances, Docs,
  Travel History, Purpose, in this order. Finances is 20 for a score from 80 on, 35
  from 60 on, else 60. Docs is 25 when no document has \<open>ok = false\<close>, 50 when exactly
  one has, 70 when two or more have. Travel History is 60 when \<open>past_visa\<close> is
  \<open>"None"\<close>, else 25. Purpose is 20 when \<open>purpose\<close> is \<open>"Study"\<close> or \<open>"Work"\<close>, else 40.
\<close>

theorem risk_items:
  "api_analyze (JsonObject profile) files = Inr r \<Longrightarrow>
     risk r =
        [\<lparr>label = js ''Finances'',
          value = (if analysis_result.score r \<ge> 80 then 20
                   else if analysis_result.score r \<ge> 60 then 35 else 60)\<rparr>,
         \<lparr>label = js ''Docs'',
          value = (if length (filter (\<lambda>d. \<not> doc_public.ok d) (docs r)) = 0 then 25
                   else if length (filter (\<lambda>d. \<not> doc_public.ok d) (docs r)) = 1 then 50
                   else 70)\<rparr>,
         \<lparr>label = js ''Travel History'',
          value = (if field profile ''past_visa'' = JStr (js ''None'') then 60 else 25)\<rparr>,
         \<lparr>label = js ''Purpose'',
          value = (if field profile ''purpose'' = JStr (js ''Study'')
                      \<or> field profile ''purpose'' = JStr (js ''Work'')
                   then 20 else 40)\<rparr>]"
proof -
  assume run: "api_analyze (JsonObject profile) files = Inr r"
  then obtain fp fb fo where
    files: "passport files = Some fp" "bank files = Some fb" "offer files = Some fo"
    by (rule api_analyze_Inr)
  show ?thesis
    unfolding api_analyze_fields [OF run files]
    by (simp only: fundsRisk_def docsRisk_public)
qed

text \<open>The example request: score 90, no rejected document, no profile field.\<close>

theorem risk_items_witness:
  "map_sum id (map risk_item.value \<circ> risk)
     (api_analyze (JsonObject Map.empty)
       \<lparr>passport = Some \<lparr>originalname = js ''ID.PDF'', size_bytes = 30720\<rparr>,
        bank = Some \<lparr>originalname = js ''ID.PDF'', size_bytes = 30720\<rparr>,
        offer = Some \<lparr>originalname = js ''ID.PDF'', size_bytes = 30720\<rparr>\<rparr>)
     = Inr [20, 25, 25, 40]"
proof -
  obtain r where run: "api_analyze (JsonObject Map.empty)
       \<lparr>passport = Some \<lparr>originalname = js ''ID.PDF'', size_bytes = 30720\<rparr>,
        bank = Some \<lparr>originalname = js ''ID.PDF'', size_bytes = 30720\<rparr>,
        offer = Some \<lparr>originalname = js ''ID.PDF'', size_bytes = 30720\<rparr>\<rparr> = Inr r"
    using example_runs by blast
  have sc: "analysis_result.score r = 90"
    using run by (rule example_result_score)
  have "docs r = map doc_public.truncate (assessed \<lparr>originalname = js ''ID.PDF'', size_bytes = 30720\<rparr>
      \<lparr>originalname = js ''ID.PDF'', size_bytes = 30720\<rparr> \<lparr>originalname = js ''ID.PDF'', size_bytes = 30720\<rparr>)"
    using run by (rule api_analyze_fields(2)) simp_all
  then have bad: "filter (\<lambda>d. \<not> doc_public.ok d) (docs r) = []"
    by (simp add: bad_truncate example_all_ok)
  show ?thesis
    using risk_items [OF run] run sc bad by (simp add: field_def)
qed

text \<open>
  Claim C8. In every result the list \<open>docs\<close> is the handler's list of entries with
  each entry truncated to the record of the fields \<open>name\<close>, \<open>ok\<close> and \<open>note\<close>: the three
  entries Passport, Bank statement, Offer letter carry the validator's \<open>ok\<close> and \<open>note\<close>
  for the file of their field; the truncation leaves \<open>name\<close>, \<open>ok\<close> and \<open>note\<close> of an
  entry as they are and keeps nothing else, so that no \<open>scoreImpact\<close> is part of the
  result.
\<close>

theorem docs_exposed:
  "api_analyze body files = Inr r \<Longrightarrow>
     (\<exists>fp fb fo. passport files = Some fp \<and> bank files = Some fb \<and> offer files = Some fo
        \<and> docs r = map doc_public.truncate (assessed fp fb fo)
        \<and> docs r =
           [\<lparr>doc_public.name = js ''Passport'',
             ok = doc_result.ok (analyzeDocument fp (js ''passport'')),
             note = doc_result.note (analyzeDocument fp (js ''passport''))\<rparr>,
            \<lparr>doc_public.name = js ''Bank statement'',
             ok = doc_result.ok (analyzeDocument fb (js ''bank'')),
             note = doc_result.note (analyzeDocument fb (js ''bank''))\<rparr>,
            \<lparr>doc_public.name = js ''Offer letter'',
             ok = doc_result.ok (analyzeDocument fo (js ''offer'')),
             note = doc_result.note (analyzeDocument fo (js ''offer''))\<rparr>])
   \<and> (\<forall>e :: doc_entry.
         doc_public.name (doc_public.truncate e) = doc_public.name e
       \<and> doc_public.ok (doc_public.truncate e) = doc_public.ok e
       \<and> doc_public.note (doc_public.truncate e) = doc_public.note e
       \<and> doc_public.more (doc_public.truncate e) = ())"
proof -
  assume "api_analyze body files = Inr r"
  then obtain profile fp fb fo where
    obj: "body = JsonObject profile"
    and files: "passport files = Some fp" "bank files = Some fb" "offer files = Some fo"
    by (rule api_analyze_Inr)
  have run: "api_analyze (JsonObject profile) files = Inr r"
    using \<open>api_analyze body files = Inr r\<close> obj by simp
  have d: "docs r = map doc_public.truncate (assessed fp fb fo)"
    using run files by (rule api_analyze_fields(2))
  have "docs r =
           [\<lparr>doc_public.name = js ''Passport'',
             ok = doc_result.ok (analyzeDocument fp (js ''passport'')),
             note = doc_result.note (analyzeDocument fp (js ''passport''))\<rparr>,
            \<lparr>doc_public.name = js ''Bank statement'',
             ok = doc_result.ok (analyzeDocument fb (js ''bank'')),
             note = doc_result.note (analyzeDocument fb (js ''bank''))\<rparr>,
            \<lparr>doc_public.name = js ''Offer letter'',
             ok = doc_result.ok (analyzeDocument fo (js ''offer'')),
             note = doc_result.note (analyzeDocument fo (js ''offer''))\<rparr>]"
    unfolding d by (rule truncate_assessed)
  with d files show ?thesis
    by (simp add: truncate_fields)
qed

text \<open>The names and the verdicts of the three exposed entries of the example request.\<close>

theorem docs_exposed_witness:
  "map_sum id (map (\<lambda>d. (doc_public.name d, doc_public.ok d)) \<circ> docs)
     (api_analyze (JsonObject Map.empty)
       \<lparr>passport = Some \<lparr>originalname = js ''ID.PDF'', size_bytes = 30720\<rparr>,
        bank = Some \<lparr>originalname = js ''ID.PDF'', size_bytes = 30720\<rparr>,
        offer = Some \<lparr>originalname = js ''ID.PDF'', size_bytes = 30720\<rparr>\<rparr>)
     = Inr [(js ''Passport'', True), (js ''Bank statement'', True), (js ''Offer letter'', True)]"
proof -
  obtain r where run: "api_analyze (JsonObject Map.empty)
       \<lparr>passport = Some \<lparr>originalname = js ''ID.PDF'', size_bytes = 30720\<rparr>,
        bank = Some \<lparr>originalname = js ''ID.PDF'', size_bytes = 30720\<rparr>,
        offer = Some \<lparr>originalname = js ''ID.PDF'', size_bytes = 30720\<rparr>\<rparr> = Inr r"
    using example_runs by blast
  let ?files = "\<lparr>passport = Some \<lparr>originalname = js ''ID.PDF'', size_bytes = 30720\<rparr>,
        bank = Some \<lparr>originalname = js ''ID.PDF'', size_bytes = 30720\<rparr>,
        offer = Some \<lparr>originalname = js ''ID.PDF'', size_bytes = 30720\<rparr>\<rparr>"
  from docs_exposed [OF run] obtain fp fb fo where
    files: "passport ?files = Some fp" "bank ?files = Some fb" "offer ?files = Some fo"
    and d: "docs r =
           [\<lparr>doc_public.name = js ''Passport'',
             ok = doc_result.ok (analyzeDocument fp (js ''passport'')),
             note = doc_result.note (analyzeDocument fp (js ''passport''))\<rparr>,
            \<lparr>doc_public.name = js ''Bank statement'',
             ok = doc_result.ok (analyzeDocument fb (js ''bank'')),
             note = doc_result.note (analyzeDocument fb (js ''bank''))\<rparr>,
            \<lparr>doc_public.name = js ''Offer letter'',
             ok = doc_result.ok (analyzeDocument fo (js ''offer'')),
             note = doc_result.note (analyzeDocument fo (js ''offer''))\<rparr>]"
    by blast
  from files have "fp = \<lparr>originalname = js ''ID.PDF'', size_bytes = 30720\<rparr>"
    and "fb = \<lparr>originalname = js ''ID.PDF'', size_bytes = 30720\<rparr>"
    and "fo = \<lparr>originalname = js ''ID.PDF'', size_bytes = 30720\<rparr>"
    by simp_all
  with d run show ?thesis
    by (simp add: analyzeDocument_ok set_allowedExt ext_ID_PDF)
qed

text \<open>
  Claim C2. For every profile, whatever its funds are, and every list of assessed
  documents, among them every list the handler builds from the validator's verdicts,
  the score that \<open>computeScore\<close> returns is an integer from 0 to 100; so is the score
  of every result of the route.
\<close>

theorem score_in_range:
  "0 \<le> score_info.score (computeScore profile docResults)
   \<and> score_info.score (computeScore profile docResults) \<le> 100
   \<and> 0 \<le> score_info.score (computeScore profile (assessed fp fb fo))
   \<and> score_info.score (computeScore profile (assessed fp fb fo)) \<le> 100
   \<and> (\<forall>body files r. api_analyze body files = Inr r
        \<longrightarrow> 0 \<le> analysis_result.score r \<and> analysis_result.score r \<le> 100)"
proof -
  have range: "0 \<le> score_info.score (computeScore p ds) \<and> score_info.score (computeScore p ds) \<le> 100"
    for p ds
    unfolding computeScore_score by simp
  have "0 \<le> analysis_result.score r \<and> analysis_result.score r \<le> 100"
    if "api_analyze body files = Inr r" for body files r
  proof -
    from that obtain p fp fb fo where
      obj: "body = JsonObject p"
      and files: "passport files = Some fp" "bank files = Some fb" "offer files = Some fo"
      by (rule api_analyze_Inr)
    have "api_analyze (JsonObject p) files = Inr r"
      using that obj by simp
    then have "analysis_result.score r = score_info.score (computeScore p (assessed fp fb fo))"
      using files by (rule api_analyze_fields(1))
    with range show ?thesis by simp
  qed
  with range show ?thesis by blast
qed

text \<open>
  A negative and a very large funds text, and the example request with its score 90.
\<close>

theorem score_in_range_witness:
  "0 \<le> score_info.score (computeScore [''funds'' \<mapsto> JStr (js ''-99999999999999999999999999'')] [])
   \<and> score_info.score (computeScore [''funds'' \<mapsto> JStr (js ''-99999999999999999999999999'')] []) \<le> 100
   \<and> 0 \<le> score_info.score (computeScore [''funds'' \<mapsto> JStr (js ''99999999999999999999999999'')] [])
   \<and> score_info.score (computeScore [''funds'' \<mapsto> JStr (js ''99999999999999999999999999'')] []) \<le> 100
   \<and> map_sum id analysis_result.score
       (api_analyze (JsonObject Map.empty)
         \<lparr>passport = Some \<lparr>originalname = js ''ID.PDF'', size_bytes = 30720\<rparr>,
        bank = Some \<lparr>originalname = js ''ID.PDF'', size_bytes = 30720\<rparr>,
        offer = Some \<lparr>originalname = js ''ID.PDF'', size_bytes = 30720\<rparr>\<rparr>)
       = Inr 90"
proof -
  obtain r where run: "api_analyze (JsonObject Map.empty)
       \<lparr>passport = Some \<lparr>originalname = js ''ID.PDF'', size_bytes = 30720\<rparr>,
        bank = Some \<lparr>originalname = js ''ID.PDF'', size_bytes = 30720\<rparr>,
        offer = Some \<lparr>originalname = js ''ID.PDF'', size_bytes = 30720\<rparr>\<rparr> = Inr r"
    using example_runs by blast
  have sc: "analysis_result.score r = 90"
    using run by (rule example_result_score)
  show ?thesis
    using score_in_range [of "[''funds'' \<mapsto> JStr (js ''-99999999999999999999999999'')]" "[]"]
          score_in_range [of "[''funds'' \<mapsto> JStr (js ''99999999999999999999999999'')]" "[]"]
          run sc
    by simp
qed

end
